theory Spec2Isabelle
  imports Main
begin

section \<open>The raw HTTP server of index.js (lines 1-14)\<close>

subsection \<open>Requests and the response object\<close>

text \<open>
  A request as the callbacks read it: \<open>req.method\<close> (the field \<open>req_method\<close>) and
  \<open>req.url\<close>, both strings.
\<close>

record request =
  req_method :: string
  url :: string

text \<open>
  The response object \<open>res\<close> of one request. \<open>ended\<close> holds the argument of every
  call of \<open>res.end\<close>, in call order, so that a response written twice would show as a
  list of two. \<open>statusCode\<close> is the field of Node's response object; a new response
  carries 200 and index.js never assigns it.
\<close>

record ServerResponse =
  statusCode :: nat
  ended :: "string list"

definition new_response :: ServerResponse where
  "new_response = \<lparr>statusCode = 200, ended = []\<rparr>"

definition res_end :: "string \<Rightarrow> ServerResponse \<Rightarrow> ServerResponse" where
  "res_end data res = res\<lparr>ended := ended res @ [data]\<rparr>"

text \<open>
  A not-found outcome on this object: a response was written and its status is 404.
\<close>

definition not_found :: "ServerResponse \<Rightarrow> bool" where
  "not_found res = (ended res \<noteq> [] \<and> statusCode res = 404)"

subsection \<open>The request callback\<close>

text \<open>
  \<^verbatim>\<open>
  http.createServer((req,res) => {
      if(req.url == "/"){ res.end('Hello World!'); }
      if(req.url == '/about'){ res.end("About page"); }
  })
  \<close>
  Two \<open>if\<close> statements in sequence, neither with an \<open>else\<close>; \<open>req.url\<close> is a string, so
  \<open>==\<close> compares two strings character by character. \<open>req.method\<close> is never read.
\<close>

definition createServer_callback :: "request \<Rightarrow> ServerResponse \<Rightarrow> ServerResponse" where
  "createServer_callback req res =
     (let res1 = (if url req = ''/'' then res_end ''Hello World!'' res else res);
          res2 = (if url req = ''/about'' then res_end ''About page'' res1 else res1)
      in res2)"

subsection \<open>The process around the callback\<close>

text \<open>
  What outlives a request in this script is the process: its console, written once by
  the callback of \<open>server.listen\<close>. The request callback closes over no variable of its
  own; it gets a fresh response object per request.
\<close>

record process =
  console :: "string list"

definition console_log :: "string \<Rightarrow> process \<Rightarrow> process" where
  "console_log line p = p\<lparr>console := console p @ [line]\<rparr>"

definition listen_callback :: "process \<Rightarrow> process" where
  "listen_callback p = console_log ''server running'' p"

definition on_request :: "request \<Rightarrow> process \<Rightarrow> process \<times> ServerResponse" where
  "on_request req p = (p, createServer_callback req new_response)"

fun serve :: "request list \<Rightarrow> process \<Rightarrow> process \<times> ServerResponse list" where
  "serve [] p = (p, [])"
| "serve (req # reqs) p =
     (case on_request req p of
        (p1, res) \<Rightarrow> (case serve reqs p1 of (p2, rs) \<Rightarrow> (p2, res # rs)))"

section \<open>The Express application of index.js (lines 14-42)\<close>

subsection \<open>Middlewares, handlers and routes\<close>

text \<open>
  What a route handler hands to the response object: \<open>res.send(body)\<close> or
  \<open>res.render(view)\<close>. The body of a rendered view comes from the view engine, which the
  spec leaves to an external collaborator.
\<close>

datatype response = Send string | Render string

text \<open>
  A middleware \<open>(req, res, next) => ...\<close> prints its console lines and then either calls
  \<open>next()\<close> or short-circuits the chain by writing a response.
\<close>

datatype action = Next | Respond response

type_synonym middleware = "request \<Rightarrow> string list \<times> action"

text \<open>
  A route handler \<open>(req, res) => ...\<close> prints its console lines and writes a response,
  or writes none.
\<close>

type_synonym handler = "request \<Rightarrow> string list \<times> response option"

record route =
  r_method :: string
  r_path :: string
  r_handler :: handler

record router =
  settings :: "(string \<times> string) list"
  middlewares :: "middleware list"
  routes :: "route list"

datatype error = ConfigurationError

definition express :: router where
  "express = \<lparr>settings = [], middlewares = [], routes = []\<rparr>"

subsection \<open>Registration\<close>

text \<open>
  Modelled from the spec: \<open>app.use\<close> belongs to the express package, which is not under
  src/; index.js only calls it. Section 4.1: \<open>use\<close> "appends a middleware to the chain;
  no constraints on count".
\<close>

definition use :: "middleware \<Rightarrow> router \<Rightarrow> router" where
  "use fn app = app\<lparr>middlewares := middlewares app @ [fn]\<rparr>"

text \<open>
  Modelled from the spec: \<open>app.set\<close> belongs to the express package, not under src/. It
  records a setting (here the view engine, which the spec leaves to the view-rendering
  collaborator); no claim reads it.
\<close>

definition set_setting :: "string \<Rightarrow> string \<Rightarrow> router \<Rightarrow> router" where
  "set_setting name val app = app\<lparr>settings := settings app @ [(name, val)]\<rparr>"

text \<open>
  Modelled from the spec: route registration belongs to the express package, not under
  src/. Section 4.1 gives \<open>register\<close> as "adds a route" and records what the source
  does with a pair that is already there: "source behavior registers duplicates
  silently and first match wins". The failure with ConfigurationError is the policy the
  spec recommends for an implementer; nothing in index.js raises or names it. The
  result type leaves room for that error, and no branch returns it.
\<close>

definition register :: "string \<Rightarrow> string \<Rightarrow> handler \<Rightarrow> router \<Rightarrow> error + router" where
  "register m p h app =
     Inr (app\<lparr>routes := routes app @ [\<lparr>r_method = m, r_path = p, r_handler = h\<rparr>]\<rparr>)"

text \<open>
  Modelled from the spec: \<open>app.get(path, handler)\<close> of the express package, not under
  src/: the registration of a route for the method GET.
\<close>

definition get :: "string \<Rightarrow> handler \<Rightarrow> router \<Rightarrow> error + router" where
  "get p h app = register ''GET'' p h app"

text \<open>Running the statements of a script one after the other; an error ends it.\<close>

fun and_then :: "error + 'a \<Rightarrow> ('a \<Rightarrow> error + 'b) \<Rightarrow> error + 'b" where
  "and_then (Inl e) f = Inl e"
| "and_then (Inr x) f = f x"

subsection \<open>Dispatch\<close>

text \<open>
  The dispatch of a request is done inside the express package, not under src/; the
  definitions of this subsection follow section 4.1 of the spec. Beside the console
  lines and the outcome, a dispatch lists what it invoked, in order: a middleware by
  its position in the chain, a route by its position in the route table.
\<close>

datatype callee = Middleware nat | Route nat

datatype outcome = Response response | NotFound | Fatal error

record dispatch_result =
  invoked :: "callee list"
  printed :: "string list"
  outcome :: outcome

text \<open>
  Modelled from the spec: the middleware chain of the express package, not under src/.
  Section 4.1: "runs middleware sequentially; each middleware may terminate the chain
  early by writing a response". The result is what was invoked, what was printed, and
  the response of the middleware that ended the chain, if one did.
\<close>

fun run_chain :: "middleware list \<Rightarrow> nat \<Rightarrow> request \<Rightarrow> callee list \<times> string list \<times> response option" where
  "run_chain [] i req = ([], [], None)"
| "run_chain (fn # fns) i req =
     (case fn req of
        (out, Respond r) \<Rightarrow> ([Middleware i], out, Some r)
      | (out, Next) \<Rightarrow>
          (case run_chain fns (Suc i) req of
             (cs, outs, r) \<Rightarrow> (Middleware i # cs, out @ outs, r)))"

text \<open>
  Modelled from the spec: route matching of the express package, not under src/.
  Section 4.1: "the router performs exact (method, path) matching".
\<close>

definition matches :: "route \<Rightarrow> request \<Rightarrow> bool" where
  "matches rt req = (req_method req = r_method rt \<and> url req = r_path rt)"

text \<open>
  Modelled from the spec: route lookup of the express package, not under src/.
  Section 4.1: "find the first route whose method and path match exactly".
\<close>

fun find_route :: "route list \<Rightarrow> nat \<Rightarrow> request \<Rightarrow> (nat \<times> route) option" where
  "find_route [] i req = None"
| "find_route (rt # rts) i req =
     (if matches rt req then Some (i, rt) else find_route rts (Suc i) req)"

text \<open>
  Modelled from the spec: \<open>dispatch\<close> of the express package, not under src/. Section
  4.1: "execute the middleware chain in registration order, then find the first route
  whose method and path match exactly, and invoke its handler"; "if no route matches,
  responds with a not-found outcome; if no response was ever produced, this is a fatal
  configuration error."
\<close>

definition dispatch :: "router \<Rightarrow> request \<Rightarrow> dispatch_result" where
  "dispatch app req =
     (case run_chain (middlewares app) 0 req of
        (cs, out, Some r) \<Rightarrow> \<lparr>invoked = cs, printed = out, outcome = Response r\<rparr>
      | (cs, out, None) \<Rightarrow>
          (case find_route (routes app) 0 req of
             None \<Rightarrow> \<lparr>invoked = cs, printed = out, outcome = NotFound\<rparr>
           | Some (i, rt) \<Rightarrow>
               (case r_handler rt req of
                  (out', Some r) \<Rightarrow>
                    \<lparr>invoked = cs @ [Route i], printed = out @ out', outcome = Response r\<rparr>
                | (out', None) \<Rightarrow>
                    \<lparr>invoked = cs @ [Route i], printed = out @ out',
                     outcome = Fatal ConfigurationError\<rparr>)))"

subsection \<open>The application script\<close>

text \<open>
  Modelled from the spec: \<open>morgan("dev")\<close> is the morgan package, not under src/; the
  spec calls it "a logging middleware". It writes no response and always continues; its
  line is printed once the response has finished, so it is no part of what the chain
  prints while it runs.
\<close>

definition morgan :: "string \<Rightarrow> middleware" where
  "morgan format req = ([], Next)"

text \<open>The decimal digits of a number, as \<open>"..." + c\<close> appends them to a string.\<close>

fun string_of_nat :: "nat \<Rightarrow> string" where
  "string_of_nat n =
     (if n < 10 then [char_of (48 + n)]
      else string_of_nat (n div 10) @ [char_of (48 + n mod 10)])"

declare string_of_nat.simps [simp del]

text \<open>
  \<^verbatim>\<open>
  app.use((req,res,next) => {
      console.log("This is middleware function");
      let a = 10; let b = 20; let c = a+b;
      console.log("the sum of a and b is : " + c);
      return next();
  })
  \<close>
\<close>

definition middleware_fn :: middleware where
  "middleware_fn req =
     (let a = 10; b = 20; c = a + b
      in ([''This is middleware function'',
           ''the sum of a and b is : '' @ string_of_nat c], Next))"

text \<open>
  \<^verbatim>\<open>
  app.get('/', (req,res) => { console.log("Running successfully"); res.render("index"); })
  app.get('/about', (req,res) => { res.send('About page'); })
  app.get('/contact', (req,res) => { res.send("Contact page"); })
  \<close>
\<close>

definition index_handler :: handler where
  "index_handler req = ([''Running successfully''], Some (Render ''index''))"

definition about_handler :: handler where
  "about_handler req = ([], Some (Send ''About page''))"

definition contact_handler :: handler where
  "contact_handler req = ([], Some (Send ''Contact page''))"

text \<open>The statements of the script, in order, up to \<open>app.listen\<close>.\<close>

definition app :: "error + router" where
  "app =
     and_then (Inr (use middleware_fn
                 (set_setting ''view engine'' ''ejs''
                   (use (morgan ''dev'') express))))
       (\<lambda>a1. and_then (get ''/'' index_handler a1)
         (\<lambda>a2. and_then (get ''/about'' about_handler a2)
           (\<lambda>a3. get ''/contact'' contact_handler a3)))"

text \<open>The router that the script has built when it reaches \<open>app.listen\<close>.\<close>

definition app_router :: router where
  "app_router =
     \<lparr>settings = [(''view engine'', ''ejs'')],
      middlewares = [morgan ''dev'', middleware_fn],
      routes = [\<lparr>r_method = ''GET'', r_path = ''/'', r_handler = index_handler\<rparr>,
                \<lparr>r_method = ''GET'', r_path = ''/about'', r_handler = about_handler\<rparr>,
                \<lparr>r_method = ''GET'', r_path = ''/contact'', r_handler = contact_handler\<rparr>]\<rparr>"

section \<open>Properties of the raw HTTP server\<close>

lemma ended_callback:
  "ended (createServer_callback req res) =
     ended res @ (if url req = ''/'' then [''Hello World!''] else [])
               @ (if url req = ''/about'' then [''About page''] else [])"
  by (simp add: createServer_callback_def res_end_def Let_def)

lemma statusCode_callback: "statusCode (createServer_callback req res) = statusCode res"
  by (simp add: createServer_callback_def res_end_def Let_def)

lemma serve_process: "fst (serve hist p) = p"
proof (induction hist arbitrary: p)
  case Nil
  show ?case by simp
next
  case (Cons req hist)
  have "fst (serve hist p) = p" by (rule Cons.IH)
  then show ?case
    by (cases "serve hist p") (simp add: on_request_def)
qed

text \<open>
  C1, as the code has it: for every incoming request the callback writes at most one
  response, never a second one; it writes exactly one precisely when the URL is
  \<open>"/"\<close> or \<open>"/about"\<close>, and none for any other URL. The two \<open>if\<close> statements cannot
  both fire, since one URL is not equal to both strings.
\<close>

theorem callback_at_most_one_response:
  "length (ended (createServer_callback req new_response)) \<le> 1 \<and>
   (length (ended (createServer_callback req new_response)) = 1) =
     (url req = ''/'' \<or> url req = ''/about'')"
  by (simp add: ended_callback new_response_def)

text \<open>
  C1 as stated asks for exactly one response to every request. For GET \<open>"/unknown"\<close>
  request handling ends with no response written.
\<close>

theorem callback_unknown_url_no_response:
  "\<not> length (ended (createServer_callback
        \<lparr>req_method = ''GET'', url = ''/unknown''\<rparr> new_response)) = 1"
  by (simp add: ended_callback new_response_def)

text \<open>
  C2, as the code has it: for every request whose URL is neither \<open>"/"\<close> nor
  \<open>"/about"\<close> the callback leaves the response object untouched. No handler's body is
  written, and no not-found response either.
\<close>

theorem callback_unmatched_url_writes_nothing:
  "url req \<noteq> ''/'' \<Longrightarrow> url req \<noteq> ''/about'' \<Longrightarrow>
     createServer_callback req res = res \<and>
     \<not> not_found (createServer_callback req new_response)"
  by (simp add: createServer_callback_def not_found_def new_response_def)

theorem callback_unmatched_url_writes_nothing_witness:
  "''/unknown'' \<noteq> ''/'' \<and> ''/unknown'' \<noteq> ''/about'' \<and>
   createServer_callback \<lparr>req_method = ''GET'', url = ''/unknown''\<rparr> new_response = new_response \<and>
   \<not> not_found (createServer_callback \<lparr>req_method = ''GET'', url = ''/unknown''\<rparr> new_response)"
proof -
  let ?req = "\<lparr>req_method = ''GET'', url = ''/unknown''\<rparr>"
  have a: "url ?req \<noteq> ''/''" and b: "url ?req \<noteq> ''/about''" by simp_all
  have "''/unknown'' \<noteq> ''/'' \<and> ''/unknown'' \<noteq> ''/about''" by simp
  with callback_unmatched_url_writes_nothing [OF a b, of new_response]
  show ?thesis by blast
qed

text \<open>
  C2 as stated asks for the not-found outcome on GET \<open>"/unknown"\<close>. The callback
  produces no not-found response there: it produces no response at all.
\<close>

theorem callback_unknown_url_not_not_found:
  "\<not> not_found (createServer_callback
        \<lparr>req_method = ''GET'', url = ''/unknown''\<rparr> new_response) \<and>
   ended (createServer_callback
        \<lparr>req_method = ''GET'', url = ''/unknown''\<rparr> new_response) = []"
  by (simp add: not_found_def ended_callback new_response_def)

text \<open>
  C3, as the code has it: the callback dispatches on the URL alone. \<open>req.method\<close> is
  never read, so two requests with the same URL get the same response whatever their
  methods are.
\<close>

theorem callback_ignores_method:
  "url req = url req' \<Longrightarrow> createServer_callback req res = createServer_callback req' res"
  by (simp add: createServer_callback_def)

theorem callback_ignores_method_witness:
  "createServer_callback \<lparr>req_method = ''POST'', url = ''/about''\<rparr> new_response =
   createServer_callback \<lparr>req_method = ''GET'', url = ''/about''\<rparr> new_response"
  using callback_ignores_method
    [of "\<lparr>req_method = ''POST'', url = ''/about''\<rparr>" "\<lparr>req_method = ''GET'', url = ''/about''\<rparr>"
        new_response]
  by simp

text \<open>
  C3 as stated says that a request with the route's path and another method does not
  reach the route's handler. The branch for \<open>"/"\<close> answers a POST as it answers a GET,
  so whichever method the route is taken to be registered for, a request of a different
  method invokes it.
\<close>

theorem callback_post_invokes_handler:
  "''POST'' \<noteq> ''GET'' \<and>
   ended (createServer_callback \<lparr>req_method = ''POST'', url = ''/''\<rparr> new_response) =
     [''Hello World!''] \<and>
   ended (createServer_callback \<lparr>req_method = ''GET'', url = ''/''\<rparr> new_response) =
     [''Hello World!'']"
  by (simp add: ended_callback new_response_def)

text \<open>
  C6: the callback compares the URL with the registered path as an exact,
  case-sensitive string. The body of a branch is written if and only if the URL is
  that very string, so a URL that differs in any character, letter case included
  (\<open>"/About"\<close>), reaches neither branch; nothing of the URL is bound or matched by a
  pattern.
\<close>

theorem callback_exact_path_match:
  "(''About page'' \<in> set (ended (createServer_callback req new_response))) =
     (url req = ''/about'') \<and>
   (''Hello World!'' \<in> set (ended (createServer_callback req new_response))) =
     (url req = ''/'') \<and>
   createServer_callback (req\<lparr>url := ''/About''\<rparr>) new_response = new_response"
proof -
  have "createServer_callback (req\<lparr>url := ''/About''\<rparr>) new_response = new_response"
    by (simp add: createServer_callback_def)
  then show ?thesis
    by (simp add: ended_callback new_response_def)
qed

text \<open>
  C8: handling a request leaves the process as it was, and the response does not
  depend on the process or on the requests served before. In particular the same GET
  \<open>"/"\<close> served twice gets the same response both times.
\<close>

theorem on_request_stateless:
  "fst (serve hist p) = p \<and>
   snd (on_request req (fst (serve hist p))) = snd (on_request req p') \<and>
   serve [\<lparr>req_method = ''GET'', url = ''/''\<rparr>, \<lparr>req_method = ''GET'', url = ''/''\<rparr>] p =
     (p, [\<lparr>statusCode = 200, ended = [''Hello World!'']\<rparr>,
          \<lparr>statusCode = 200, ended = [''Hello World!'']\<rparr>])"
  by (simp add: serve_process on_request_def createServer_callback_def res_end_def
      new_response_def)

text \<open>
  C9: a GET request for \<open>"/"\<close> gets one response, whose body is \<open>"Hello World!"\<close>.
\<close>

theorem callback_root_hello_world:
  "createServer_callback \<lparr>req_method = ''GET'', url = ''/''\<rparr> new_response =
     \<lparr>statusCode = 200, ended = [''Hello World!'']\<rparr>"
  by (simp add: createServer_callback_def res_end_def new_response_def)

section \<open>Properties of the Express application\<close>

lemma string_of_nat_30: "string_of_nat 30 = ''30''"
  by code_simp

lemma middleware_fn_eq:
  "middleware_fn req =
     ([''This is middleware function'', ''the sum of a and b is : 30''], Next)"
  by (simp add: middleware_fn_def string_of_nat_30)

lemma app_eq: "app = Inr app_router"
  by (simp add: app_def app_router_def get_def register_def use_def set_setting_def
      express_def)

lemma find_route_append:
  "find_route (xs @ ys) i req =
     (case find_route xs i req of
        Some x \<Rightarrow> Some x
      | None \<Rightarrow> find_route ys (i + length xs) req)"
  by (induction xs arbitrary: i) (simp_all split: option.splits)

lemma find_route_None:
  "(find_route xs i req = None) = (\<forall>rt \<in> set xs. \<not> matches rt req)"
  by (induction xs arbitrary: i) simp_all

lemma find_route_shadowed:
  assumes "\<exists>rt \<in> set rts. r_method rt = m \<and> r_path rt = p"
  shows "find_route (rts @ [\<lparr>r_method = m, r_path = p, r_handler = h\<rparr>]) i req =
           find_route rts i req"
proof (cases "find_route rts i req")
  case (Some x)
  then show ?thesis by (simp add: find_route_append)
next
  case None
  then have "\<forall>rt \<in> set rts. \<not> matches rt req" by (simp add: find_route_None)
  with assms have "\<not> matches \<lparr>r_method = m, r_path = p, r_handler = h\<rparr> req"
    by (auto simp add: matches_def)
  with None show ?thesis by (simp add: find_route_append)
qed

text \<open>
  C4: for every registered route, a request that matches it invokes that route's
  handler and no other one. In the raw server a request for \<open>"/"\<close> gets exactly the
  body of the \<open>"/"\<close> branch and a request for \<open>"/about"\<close> exactly that of the
  \<open>"/about"\<close> branch. In the Express application the script builds \<open>app_router\<close>, and
  a request that matches its route number \<open>i\<close> passes the two middlewares and then
  invokes route \<open>i\<close> alone; what is printed and answered is what that handler prints
  and answers.
\<close>

theorem matching_route_invokes_its_handler:
  "(url req = ''/'' \<longrightarrow>
      ended (createServer_callback req new_response) = [''Hello World!'']) \<and>
   (url req = ''/about'' \<longrightarrow>
      ended (createServer_callback req new_response) = [''About page'']) \<and>
   app = Inr app_router \<and>
   (\<forall>i < length (routes app_router). matches (routes app_router ! i) rq \<longrightarrow>
      invoked (dispatch app_router rq) = [Middleware 0, Middleware 1, Route i] \<and>
      printed (dispatch app_router rq) =
        fst (middleware_fn rq) @ fst (r_handler (routes app_router ! i) rq) \<and>
      outcome (dispatch app_router rq) =
        (case snd (r_handler (routes app_router ! i) rq) of
           Some r \<Rightarrow> Response r
         | None \<Rightarrow> Fatal ConfigurationError))"
proof -
  have http:
    "(url req = ''/'' \<longrightarrow>
        ended (createServer_callback req new_response) = [''Hello World!'']) \<and>
     (url req = ''/about'' \<longrightarrow>
        ended (createServer_callback req new_response) = [''About page''])"
    by (simp add: ended_callback new_response_def)
  have r0: "matches (routes app_router ! 0) rq \<Longrightarrow>
      dispatch app_router rq =
        \<lparr>invoked = [Middleware 0, Middleware 1, Route 0],
         printed = fst (middleware_fn rq) @ [''Running successfully''],
         outcome = Response (Render ''index'')\<rparr>"
    by (simp add: app_router_def dispatch_def matches_def morgan_def middleware_fn_eq
        index_handler_def)
  have r1: "matches (routes app_router ! 1) rq \<Longrightarrow>
      dispatch app_router rq =
        \<lparr>invoked = [Middleware 0, Middleware 1, Route 1],
         printed = fst (middleware_fn rq),
         outcome = Response (Send ''About page'')\<rparr>"
    by (simp add: app_router_def dispatch_def matches_def morgan_def middleware_fn_eq
        about_handler_def)
  have r2: "matches (routes app_router ! 2) rq \<Longrightarrow>
      dispatch app_router rq =
        \<lparr>invoked = [Middleware 0, Middleware 1, Route 2],
         printed = fst (middleware_fn rq),
         outcome = Response (Send ''Contact page'')\<rparr>"
    by (simp add: app_router_def dispatch_def matches_def morgan_def middleware_fn_eq
        contact_handler_def)
  have all: "\<forall>i < length (routes app_router). matches (routes app_router ! i) rq \<longrightarrow>
      invoked (dispatch app_router rq) = [Middleware 0, Middleware 1, Route i] \<and>
      printed (dispatch app_router rq) =
        fst (middleware_fn rq) @ fst (r_handler (routes app_router ! i) rq) \<and>
      outcome (dispatch app_router rq) =
        (case snd (r_handler (routes app_router ! i) rq) of
           Some r \<Rightarrow> Response r
         | None \<Rightarrow> Fatal ConfigurationError)"
  proof (intro allI impI)
    fix i
    assume i: "i < length (routes app_router)"
      and m: "matches (routes app_router ! i) rq"
    from i have "i = 0 \<or> i = 1 \<or> i = 2" by (auto simp add: app_router_def)
    then show "invoked (dispatch app_router rq) = [Middleware 0, Middleware 1, Route i] \<and>
      printed (dispatch app_router rq) =
        fst (middleware_fn rq) @ fst (r_handler (routes app_router ! i) rq) \<and>
      outcome (dispatch app_router rq) =
        (case snd (r_handler (routes app_router ! i) rq) of
           Some r \<Rightarrow> Response r
         | None \<Rightarrow> Fatal ConfigurationError)"
    proof (elim disjE)
      assume "i = 0"
      with m r0 show ?thesis by (simp add: app_router_def index_handler_def)
    next
      assume "i = 1"
      with m r1 show ?thesis by (simp add: app_router_def about_handler_def)
    next
      assume "i = 2"
      with m r2 show ?thesis by (simp add: app_router_def contact_handler_def)
    qed
  qed
  from http app_eq all show ?thesis by blast
qed

theorem matching_route_invokes_its_handler_witness:
  "ended (createServer_callback \<lparr>req_method = ''GET'', url = ''/about''\<rparr> new_response) =
     [''About page''] \<and>
   matches (routes app_router ! 1) \<lparr>req_method = ''GET'', url = ''/about''\<rparr> \<and>
   invoked (dispatch app_router \<lparr>req_method = ''GET'', url = ''/about''\<rparr>) =
     [Middleware 0, Middleware 1, Route 1] \<and>
   outcome (dispatch app_router \<lparr>req_method = ''GET'', url = ''/about''\<rparr>) =
     Response (Send ''About page'')"
proof -
  let ?rq = "\<lparr>req_method = ''GET'', url = ''/about''\<rparr>"
  have m: "matches (routes app_router ! 1) ?rq"
    by (simp add: app_router_def matches_def)
  have l: "1 < length (routes app_router)" by (simp add: app_router_def)
  have h: "snd (r_handler (routes app_router ! 1) ?rq) = Some (Send ''About page'')"
    by (simp add: app_router_def about_handler_def)
  from matching_route_invokes_its_handler [of ?rq ?rq] m l h show ?thesis by simp
qed

text \<open>
  C5: with the middlewares \<open>[A, B]\<close> registered and a route with handler \<open>H\<close> matching
  the request, dispatch invokes \<open>A\<close>, then \<open>B\<close>, then \<open>H\<close>, and prints their lines in
  that order. If \<open>A\<close> writes a response, neither \<open>B\<close> nor \<open>H\<close> is invoked; if \<open>A\<close>
  continues and \<open>B\<close> writes a response, \<open>H\<close> is not invoked.
\<close>

theorem middleware_order:
  assumes mws: "middlewares a = [A, B]"
    and rt: "find_route (routes a) 0 req = Some (i, rt)"
    and H: "r_handler rt = H"
  shows "(invoked (dispatch a req), printed (dispatch a req)) =
     (case snd (A req) of
        Respond r \<Rightarrow> ([Middleware 0], fst (A req))
      | Next \<Rightarrow>
          (case snd (B req) of
             Respond r \<Rightarrow> ([Middleware 0, Middleware 1], fst (A req) @ fst (B req))
           | Next \<Rightarrow> ([Middleware 0, Middleware 1, Route i],
                       fst (A req) @ fst (B req) @ fst (H req))))"
proof (cases "A req")
  case (Pair outA actA)
  note A = this
  show ?thesis
  proof (cases actA)
    case (Respond r)
    with A mws show ?thesis by (simp add: dispatch_def)
  next
    case Next
    note nA = this
    show ?thesis
    proof (cases "B req")
      case (Pair outB actB)
      note B = this
      show ?thesis
      proof (cases actB)
        case (Respond r)
        with A nA B mws show ?thesis by (simp add: dispatch_def)
      next
        case Next
        with A nA B mws rt H show ?thesis
          by (cases "H req") (simp add: dispatch_def split: option.splits)
      qed
    qed
  qed
qed

theorem middleware_order_witness:
  "(invoked (dispatch app_router \<lparr>req_method = ''GET'', url = ''/''\<rparr>),
    printed (dispatch app_router \<lparr>req_method = ''GET'', url = ''/''\<rparr>)) =
     ([Middleware 0, Middleware 1, Route 0],
      [''This is middleware function'', ''the sum of a and b is : 30'',
       ''Running successfully'']) \<and>
   (invoked (dispatch
       (app_router\<lparr>middlewares :=
          [morgan ''dev'', \<lambda>req. ([''denied''], Respond (Send ''Forbidden''))]\<rparr>)
       \<lparr>req_method = ''GET'', url = ''/''\<rparr>),
    printed (dispatch
       (app_router\<lparr>middlewares :=
          [morgan ''dev'', \<lambda>req. ([''denied''], Respond (Send ''Forbidden''))]\<rparr>)
       \<lparr>req_method = ''GET'', url = ''/''\<rparr>)) =
     ([Middleware 0, Middleware 1], [''denied''])"
proof -
  let ?req = "\<lparr>req_method = ''GET'', url = ''/''\<rparr>"
  let ?rt = "\<lparr>r_method = ''GET'', r_path = ''/'', r_handler = index_handler\<rparr>"
  let ?deny = "\<lambda>req::request. ([''denied''], Respond (Send ''Forbidden''))"
  let ?a = "app_router\<lparr>middlewares := [morgan ''dev'', ?deny]\<rparr>"
  have m1: "middlewares app_router = [morgan ''dev'', middleware_fn]"
    by (simp add: app_router_def)
  have f1: "find_route (routes app_router) 0 ?req = Some (0, ?rt)"
    by (simp add: app_router_def matches_def)
  have m2: "middlewares ?a = [morgan ''dev'', ?deny]"
    by simp
  have f2: "find_route (routes ?a) 0 ?req = Some (0, ?rt)"
    by (simp add: app_router_def matches_def)
  have h: "r_handler ?rt = index_handler" by simp
  show ?thesis
    using middleware_order [OF m1 f1 h] middleware_order [OF m2 f2 h]
    by (simp add: morgan_def middleware_fn_eq index_handler_def)
qed

text \<open>
  C7, as the code has it: registering a route never fails. The route is appended to
  the table also when an identical (method, path) pair is already registered; the
  earlier route keeps winning, so every request is dispatched as before the second
  registration.
\<close>

theorem register_duplicate_is_silent:
  "\<exists>a'. register m p h a = Inr a' \<and>
        routes a' = routes a @ [\<lparr>r_method = m, r_path = p, r_handler = h\<rparr>] \<and>
        middlewares a' = middlewares a \<and>
        ((\<exists>rt \<in> set (routes a). r_method rt = m \<and> r_path rt = p) \<longrightarrow>
           (\<forall>req. dispatch a' req = dispatch a req))"
proof -
  let ?a' = "a\<lparr>routes := routes a @ [\<lparr>r_method = m, r_path = p, r_handler = h\<rparr>]\<rparr>"
  have "(\<exists>rt \<in> set (routes a). r_method rt = m \<and> r_path rt = p) \<longrightarrow>
           (\<forall>req. dispatch ?a' req = dispatch a req)"
    by (simp add: dispatch_def find_route_shadowed)
  then show ?thesis by (simp add: register_def)
qed

theorem register_duplicate_is_silent_witness:
  "(\<exists>rt \<in> set (routes app_router). r_method rt = ''GET'' \<and> r_path rt = ''/about'') \<and>
   (\<exists>a'. register ''GET'' ''/about'' contact_handler app_router = Inr a' \<and>
      length (routes a') = 4 \<and>
      outcome (dispatch a' \<lparr>req_method = ''GET'', url = ''/about''\<rparr>) =
        Response (Send ''About page''))"
proof -
  have dup: "\<exists>rt \<in> set (routes app_router). r_method rt = ''GET'' \<and> r_path rt = ''/about''"
    by (simp add: app_router_def)
  have out: "outcome (dispatch app_router \<lparr>req_method = ''GET'', url = ''/about''\<rparr>) =
      Response (Send ''About page'')"
    by (simp add: app_router_def dispatch_def matches_def morgan_def middleware_fn_eq
        about_handler_def)
  have len: "length (routes app_router) = 3" by (simp add: app_router_def)
  from register_duplicate_is_silent [of "''GET''" "''/about''" contact_handler app_router]
    dup out len
  show ?thesis by auto
qed

text \<open>
  C7 as stated says that registering an identical (method, path) pair fails with a
  ConfigurationError. Registering GET \<open>"/"\<close> twice succeeds, and the table holds both
  routes.
\<close>

theorem register_duplicate_succeeds:
  "and_then (get ''/'' index_handler express) (get ''/'' about_handler) =
     Inr \<lparr>settings = [], middlewares = [],
          routes = [\<lparr>r_method = ''GET'', r_path = ''/'', r_handler = index_handler\<rparr>,
                    \<lparr>r_method = ''GET'', r_path = ''/'', r_handler = about_handler\<rparr>]\<rparr> \<and>
   and_then (get ''/'' index_handler express) (get ''/'' about_handler) \<noteq>
     Inl ConfigurationError"
  by (simp add: get_def register_def express_def)

text \<open>
  C10: the script registers a route for GET \<open>"/contact"\<close>, and dispatching GET
  \<open>"/contact"\<close> answers with the body \<open>"Contact page"\<close>.
\<close>

theorem app_contact_route:
  "app = Inr app_router \<and>
   (\<exists>rt \<in> set (routes app_router). r_method rt = ''GET'' \<and> r_path rt = ''/contact'') \<and>
   outcome (dispatch app_router \<lparr>req_method = ''GET'', url = ''/contact''\<rparr>) =
     Response (Send ''Contact page'')"
proof -
  have "outcome (dispatch app_router \<lparr>req_method = ''GET'', url = ''/contact''\<rparr>) =
      Response (Send ''Contact page'')"
    by (simp add: app_router_def dispatch_def matches_def morgan_def middleware_fn_eq
        contact_handler_def)
  moreover have "\<exists>rt \<in> set (routes app_router).
      r_method rt = ''GET'' \<and> r_path rt = ''/contact''"
    by (simp add: app_router_def)
  ultimately show ?thesis using app_eq by blast
qed

end
